theory Spec2Isabelle
  imports Complex_Main
begin

section \<open>Shared data: errors, arrays, dictionaries\<close>

text \<open>
  A shallow embedding of \<^verbatim>\<open>pyxsim/event_list.py\<close> and \<^verbatim>\<open>pyxsim/source_models.py\<close>.
  Floating-point numbers are modelled by \<^typ>\<open>real\<close>. A quantity of the unit library is
  modelled by its value in the unit the data model fixes for it (seconds, cm**2, degrees,
  Mpc, keV), so the unit tag itself is not part of the model. Every exception the Python can
  raise on a path that is modelled is a value of \<open>error\<close>.
\<close>

datatype error =
    KeyError string
  | RuntimeError string
  | AssertionError
  | IndexError
  | ValueError
  | AttributeError
  | NameError

text \<open>
  A Python \<^verbatim>\<open>dict\<close> keeps its items in insertion order and \<^verbatim>\<open>items()\<close> walks them in
  that order, so the event dictionary is an association list. \<open>dict_set\<close> is \<^verbatim>\<open>d[k] = v\<close>:
  an existing key keeps its position, a new key goes to the end.
\<close>

type_synonym 'v pydict = "(string \<times> 'v) list"

fun dict_set :: "'v pydict \<Rightarrow> string \<Rightarrow> 'v \<Rightarrow> 'v pydict" where
  "dict_set [] k v = [(k, v)]"
| "dict_set ((k', v') # d) k v =
     (if k' = k then (k, v) # d else (k', v') # dict_set d k v)"

definition dict_get :: "'v pydict \<Rightarrow> string \<Rightarrow> error + 'v" where
  "dict_get d k = (case map_of d k of None \<Rightarrow> Inl (KeyError k) | Some v \<Rightarrow> Inr v)"

definition dict_keys :: "'v pydict \<Rightarrow> string list" where
  "dict_keys d = map fst d"

text \<open>Boolean-mask indexing \<^verbatim>\<open>v[idxs]\<close>; numpy raises when the mask has another length.\<close>

definition mask_select :: "'a list \<Rightarrow> bool list \<Rightarrow> error + 'a list" where
  "mask_select v idxs =
     (if length v = length idxs then Inr (map fst (filter snd (zip v idxs)))
      else Inl IndexError)"

definition mask_sum :: "bool list \<Rightarrow> nat" where
  "mask_sum idxs = length (filter (\<lambda>b. b) idxs)"

text \<open>Sequencing of steps that may raise: the first error ends the computation.\<close>

definition err_bind :: "error + 'a \<Rightarrow> ('a \<Rightarrow> error + 'b) \<Rightarrow> error + 'b" where
  "err_bind r f = (case r of Inl err \<Rightarrow> Inl err | Inr x \<Rightarrow> f x)"

fun err_map :: "('a \<Rightarrow> error + 'b) \<Rightarrow> 'a list \<Rightarrow> error + 'b list" where
  "err_map f [] = Inr []"
| "err_map f (x # xs) =
     err_bind (f x) (\<lambda>y. err_bind (err_map f xs) (\<lambda>ys. Inr (y # ys)))"

section \<open>The pseudo-random source\<close>

text \<open>
  The generator is an external object. It is a parameter of the model: a record of its
  sampling methods over an abstract generator state \<open>'s\<close>, each returning the draw and
  the next state. An array draw of \<open>size = n\<close> is \<open>n\<close> single draws in sequence.
\<close>

record 's prng =
  uniform :: "real \<Rightarrow> real \<Rightarrow> 's \<Rightarrow> real \<times> 's"
  poisson :: "real \<Rightarrow> 's \<Rightarrow> nat \<times> 's"
  normal :: "real \<Rightarrow> real \<Rightarrow> 's \<Rightarrow> real \<times> 's"
  choice :: "nat \<Rightarrow> real list \<Rightarrow> 's \<Rightarrow> nat \<times> 's"

fun draw_n :: "('s \<Rightarrow> 'a \<times> 's) \<Rightarrow> nat \<Rightarrow> 's \<Rightarrow> 'a list \<times> 's" where
  "draw_n f 0 s = ([], s)"
| "draw_n f (Suc n) s =
     (let (x, s1) = f s; (xs, s2) = draw_n f n s1 in (x # xs, s2))"

fun draw_each :: "('p \<Rightarrow> 's \<Rightarrow> 'a \<times> 's) \<Rightarrow> 'p list \<Rightarrow> 's \<Rightarrow> 'a list \<times> 's" where
  "draw_each f [] s = ([], s)"
| "draw_each f (p # ps) s =
     (let (x, s1) = f p s; (xs, s2) = draw_each f ps s1 in (x # xs, s2))"

section \<open>The event catalog\<close>

record wcs =
  crpix :: "real list"
  crval :: "real list"
  cdelt :: "real list"
  ctype :: "string list"
  cunit :: "string list"

record parameters =
  ExposureTime :: real
  Area :: real
  Redshift :: "real option"
  AngularDiameterDistance :: "real option"
  sky_center :: "real list"
  pix_center :: "real list"
  dtheta :: real

record EventList =
  events :: "real list pydict"
  parameters :: parameters
  num_events :: nat
  wcs :: wcs

text \<open>\<^verbatim>\<open>EventList.__init__\<close>: \<^verbatim>\<open>events["xpix"].shape[0]\<close> raises on a missing key.\<close>

definition EventList_init ::
  "real list pydict \<Rightarrow> parameters \<Rightarrow> wcs option \<Rightarrow> error + EventList" where
  "EventList_init ev p w =
     (case dict_get ev ''xpix'' of
        Inl e \<Rightarrow> Inl e
      | Inr x \<Rightarrow>
          Inr \<lparr>events = ev, parameters = p, num_events = length x,
               wcs = (case w of
                        None \<Rightarrow> \<lparr>crpix = pix_center p, crval = sky_center p,
                                 cdelt = [- dtheta p, dtheta p],
                                 ctype = [''RA---TAN'', ''DEC--TAN''],
                                 cunit = [''deg'', ''deg'']\<rparr>
                      | Some w' \<Rightarrow> w')\<rparr>)"

text \<open>
  \<^verbatim>\<open>EventList.__getitem__\<close>. The world-coordinate transform \<open>pix2world\<close> is the external
  \<^verbatim>\<open>wcs.wcs_pix2world\<close>, a parameter. The method may cache the sky coordinates in the
  catalog, so it returns the catalog as well.
\<close>

definition getitem ::
  "(wcs \<Rightarrow> real list \<Rightarrow> real list \<Rightarrow> real list \<times> real list) \<Rightarrow>
   EventList \<Rightarrow> string \<Rightarrow> (error + real list) \<times> EventList" where
  "getitem pix2world c key =
     (if key \<notin> set (dict_keys (events c)) \<and> (key = ''xsky'' \<or> key = ''ysky'') then
        (case dict_get (events c) ''xpix'' of
           Inl e \<Rightarrow> (Inl e, c)
         | Inr xp \<Rightarrow>
            (case dict_get (events c) ''ypix'' of
               Inl e \<Rightarrow> (Inl e, c)
             | Inr yp \<Rightarrow>
                (let (x, y) = pix2world (wcs c) xp yp;
                     c' = c\<lparr>events := dict_set (dict_set (events c) ''xsky'' x) ''ysky'' y\<rparr>
                 in (dict_get (events c') key, c'))))
      else (dict_get (events c) key, c))"

text \<open>
  \<^verbatim>\<open>EventList.__add__\<close>. \<open>same_wcs\<close> is the external \<^verbatim>\<open>assert_same_wcs\<close> and
  \<open>valid_params\<close> the external \<^verbatim>\<open>validate_parameters\<close>; both raise when they fail.
  The loop pairs the items of the two dictionaries by position and stores the
  concatenation under the key of the left one.
\<close>

fun add_loop ::
  "real list pydict \<Rightarrow> (string \<times> real list) list \<Rightarrow> (string \<times> real list) list \<Rightarrow>
   real list pydict" where
  "add_loop acc ((k1, v1) # r1) ((k2, v2) # r2) = add_loop (dict_set acc k1 (v1 @ v2)) r1 r2"
| "add_loop acc _ _ = acc"

definition EventList_add ::
  "(wcs \<Rightarrow> wcs \<Rightarrow> bool) \<Rightarrow> (parameters \<Rightarrow> parameters \<Rightarrow> bool) \<Rightarrow>
   EventList \<Rightarrow> EventList \<Rightarrow> error + EventList" where
  "EventList_add same_wcs valid_params self other =
     (if \<not> same_wcs (wcs self) (wcs other) then Inl AssertionError
      else if \<not> valid_params (parameters self) (parameters other) then Inl (RuntimeError ''parameters'')
      else EventList_init (add_loop [] (events self) (events other)) (parameters self) None)"

text \<open>
  \<^verbatim>\<open>np.uint64(x)\<close> of a floating-point number: the fraction is dropped (towards zero) and
  the integer is reduced to 64 bits.
\<close>

definition uint64 :: "real \<Rightarrow> nat" where
  "uint64 x = nat ((if x < 0 then \<lceil>x\<rceil> else \<lfloor>x\<rfloor>) mod 2 ^ 64)"

fun cumsum_from :: "real \<Rightarrow> real list \<Rightarrow> real list" where
  "cumsum_from a [] = []"
| "cumsum_from a (x # xs) = (a + x) # cumsum_from (a + x) xs"

definition cumsum :: "real list \<Rightarrow> real list" where
  "cumsum xs = cumsum_from 0 xs"

text \<open>
  \<^verbatim>\<open>np.interp(x, xp, fp)\<close>: piecewise-linear interpolation through the points
  \<open>zip xp fp\<close>, constant outside them.
\<close>

fun interp_seg :: "real \<Rightarrow> (real \<times> real) list \<Rightarrow> real" where
  "interp_seg x [] = 0"
| "interp_seg x [(x0, y0)] = y0"
| "interp_seg x ((x0, y0) # (x1, y1) # ps) =
     (if x \<le> x0 then y0
      else if x < x1 then y0 + (x - x0) * (y1 - y0) / (x1 - x0)
      else interp_seg x ((x1, y1) # ps))"

definition interp :: "real list \<Rightarrow> real list \<Rightarrow> real list \<Rightarrow> real list" where
  "interp xs xp fp = map (\<lambda>x. interp_seg x (zip xp fp)) xs"

definition list_get :: "'a list \<Rightarrow> nat \<Rightarrow> error + 'a" where
  "list_get xs i = (if i < length xs then Inr (xs ! i) else Inl IndexError)"

text \<open>
  \<^verbatim>\<open>EventList._add_events\<close>. The absorption model is external: \<open>None\<close>, or its
  \<^verbatim>\<open>absorb_photons\<close> method, which draws from the generator and returns a mask.
\<close>

definition add_events ::
  "'s prng \<Rightarrow> (real list \<Rightarrow> 's \<Rightarrow> bool list \<times> 's) option \<Rightarrow>
   EventList \<Rightarrow> real list \<Rightarrow> real list \<Rightarrow> 's \<Rightarrow> error + (real list \<times> 's)" where
  "add_events rng absorb_model self ebins spectrum s =
     (let exp_time = ExposureTime (parameters self);
          area = Area (parameters self);
          flux = sum_list spectrum;
          num_photons = uint64 (exp_time * area * flux);
          cumspec0 = 0 # cumsum spectrum;
          cumspec = map (\<lambda>c. c / last cumspec0) cumspec0;
          (randvec, s1) = draw_n (uniform rng 0 1) num_photons s;
          e = interp (sort randvec) cumspec ebins;
          (detected, s2) =
             (case absorb_model of
                None \<Rightarrow> (replicate (length e) True, s1)
              | Some absorb_photons \<Rightarrow> absorb_photons e s1)
      in err_bind (mask_select e detected) (\<lambda>e'. Inr (e', s2)))"

text \<open>
  \<^verbatim>\<open>EventList.add_background\<close>. The energies come from the generator \<open>rng\<close> that the
  caller passes; the positions come from the module-level generator \<^verbatim>\<open>np.random\<close>,
  here \<open>nprandom\<close> with its own state \<open>g\<close>. The new events are put in front of the old.
\<close>

definition add_background ::
  "'s prng \<Rightarrow> 'g prng \<Rightarrow> (real list \<Rightarrow> 's \<Rightarrow> bool list \<times> 's) option \<Rightarrow>
   EventList \<Rightarrow> real list \<Rightarrow> real list \<Rightarrow> 's \<Rightarrow> 'g \<Rightarrow>
   error + (EventList \<times> 's \<times> 'g)" where
  "add_background rng nprandom absorb_model self energy_bins spectrum s g =
     err_bind (add_events rng absorb_model self energy_bins spectrum s) (\<lambda>(eobs, s1).
     (let ne = length eobs in
      err_bind (list_get (pix_center (parameters self)) 0) (\<lambda>pc0.
     (let (x, g1) = draw_n (uniform nprandom 0.5 (2 * pc0 - 0.5)) ne g in
      err_bind (list_get (pix_center (parameters self)) 1) (\<lambda>pc1.
     (let (y, g2) = draw_n (uniform nprandom 0.5 (2 * pc1 - 0.5)) ne g1 in
      err_bind (dict_get (events self) ''xpix'') (\<lambda>xpix.
      err_bind (dict_get (events self) ''ypix'') (\<lambda>ypix.
      err_bind (dict_get (events self) ''eobs'') (\<lambda>eobs_old.
      err_bind (EventList_init
                  [(''xpix'', x @ xpix), (''ypix'', y @ ypix), (''eobs'', eobs @ eobs_old)]
                  (parameters self) None) (\<lambda>c.
        Inr (c, s1, g2)))))))))))"

text \<open>
  \<^verbatim>\<open>EventList.add_point_sources\<close>. \<open>world2pix\<close> is the external
  \<^verbatim>\<open>wcs.wcs_world2pix\<close>. A position is the pair \<^verbatim>\<open>(pos[0], pos[1])\<close>. The loop
  accumulates the three lists of pieces that \<^verbatim>\<open>uconcatenate\<close> joins at the end.
\<close>

fun point_loop ::
  "'s prng \<Rightarrow> (real list \<Rightarrow> 's \<Rightarrow> bool list \<times> 's) option \<Rightarrow>
   (wcs \<Rightarrow> real \<Rightarrow> real \<Rightarrow> real \<times> real) \<Rightarrow> EventList \<Rightarrow> real list \<Rightarrow>
   (real \<times> real) list \<Rightarrow> real list list \<Rightarrow>
   real list list \<times> real list list \<times> real list list \<Rightarrow> 's \<Rightarrow>
   error + ((real list list \<times> real list list \<times> real list list) \<times> 's)" where
  "point_loop rng absorb_model world2pix self energy_bins (pos # ps) (spectrum # sps) (x, y, e) s =
     (case add_events rng absorb_model self energy_bins spectrum s of
        Inl err \<Rightarrow> Inl err
      | Inr (eobs, s1) \<Rightarrow>
          (let (xpix, ypix) = world2pix (wcs self) (fst pos) (snd pos);
               ne = length eobs
           in point_loop rng absorb_model world2pix self energy_bins ps sps
                (x @ [replicate ne xpix], y @ [replicate ne ypix], e @ [eobs]) s1))"
| "point_loop rng absorb_model world2pix self energy_bins _ _ acc s = Inr (acc, s)"

definition add_point_sources ::
  "'s prng \<Rightarrow> (real list \<Rightarrow> 's \<Rightarrow> bool list \<times> 's) option \<Rightarrow>
   (wcs \<Rightarrow> real \<Rightarrow> real \<Rightarrow> real \<times> real) \<Rightarrow> EventList \<Rightarrow>
   (real \<times> real) list \<Rightarrow> real list \<Rightarrow> real list list \<Rightarrow> 's \<Rightarrow>
   error + (EventList \<times> 's)" where
  "add_point_sources rng absorb_model world2pix self positions energy_bins spectra s =
     err_bind (dict_get (events self) ''xpix'') (\<lambda>xpix.
     err_bind (dict_get (events self) ''ypix'') (\<lambda>ypix.
     err_bind (dict_get (events self) ''eobs'') (\<lambda>eobs.
     err_bind (point_loop rng absorb_model world2pix self energy_bins positions spectra
                 ([xpix], [ypix], [eobs]) s) (\<lambda>((x, y, e), s1).
     err_bind (EventList_init
                 [(''xpix'', concat x), (''ypix'', concat y), (''eobs'', concat e)]
                 (parameters self) None) (\<lambda>c.
       Inr (c, s1))))))"

text \<open>
  \<^verbatim>\<open>EventList.filter_events\<close>. The region library is external: \<open>region\<close> is the
  inclusion test that the parsed region gives for the catalog's coordinate header, applied
  to each event. The method reads through \<^verbatim>\<open>self[...]\<close>, so the catalog after the call
  is returned next to the result.
\<close>

fun filter_loop ::
  "real list pydict \<Rightarrow> (string \<times> real list) list \<Rightarrow> bool list \<Rightarrow> error + real list pydict" where
  "filter_loop acc [] idxs = Inr acc"
| "filter_loop acc ((k, v) # r) idxs =
     (case mask_select v idxs of
        Inl err \<Rightarrow> Inl err
      | Inr v' \<Rightarrow> filter_loop (dict_set acc k v') r idxs)"

definition filter_events ::
  "(wcs \<Rightarrow> real list \<Rightarrow> real list \<Rightarrow> real list \<times> real list) \<Rightarrow>
   (wcs \<Rightarrow> real \<Rightarrow> real \<Rightarrow> bool) \<Rightarrow> EventList \<Rightarrow> (error + EventList) \<times> EventList" where
  "filter_events pix2world region self =
     (let (rx, c1) = getitem pix2world self ''xpix'' in
      case rx of
        Inl err \<Rightarrow> (Inl err, c1)
      | Inr xs \<Rightarrow>
     (let (ry, c2) = getitem pix2world c1 ''ypix'' in
      case ry of
        Inl err \<Rightarrow> (Inl err, c2)
      | Inr ys \<Rightarrow>
          if length xs \<noteq> length ys then (Inl ValueError, c2)
          else
            (let idxs = map2 (region (wcs c2)) xs ys in
             if mask_sum idxs = 0
             then (Inl (RuntimeError ''No events are inside this region!''), c2)
             else (case filter_loop [] (events c2) idxs of
                     Inl err \<Rightarrow> (Inl err, c2)
                   | Inr new_events \<Rightarrow>
                       (EventList_init new_events (parameters c2) None, c2)))))"

text \<open>
  The checkpoint file: two groups of named datasets, each a scalar or an array.
  \<^verbatim>\<open>p[name].value\<close> reads a scalar, \<^verbatim>\<open>p[name][:]\<close> an array.
\<close>

datatype h5data = H5Scalar real | H5Array "real list"

record h5file =
  h5_parameters :: "h5data pydict"
  h5_data :: "h5data pydict"

definition h5_value :: "h5data pydict \<Rightarrow> string \<Rightarrow> error + real" where
  "h5_value grp k =
     (case dict_get grp k of
        Inl err \<Rightarrow> Inl err
      | Inr (H5Scalar r) \<Rightarrow> Inr r
      | Inr (H5Array a) \<Rightarrow> Inl ValueError)"

definition h5_slice :: "h5data pydict \<Rightarrow> string \<Rightarrow> error + real list" where
  "h5_slice grp k =
     (case dict_get grp k of
        Inl err \<Rightarrow> Inl err
      | Inr (H5Scalar r) \<Rightarrow> Inl ValueError
      | Inr (H5Array a) \<Rightarrow> Inr a)"

definition h5_opt_value :: "h5data pydict \<Rightarrow> string \<Rightarrow> error + real option" where
  "h5_opt_value grp k =
     (if k \<in> set (dict_keys grp)
      then (case h5_value grp k of Inl err \<Rightarrow> Inl err | Inr r \<Rightarrow> Inr (Some r))
      else Inr None)"

text \<open>\<^verbatim>\<open>EventList.from_h5_file\<close>.\<close>

definition from_h5_file :: "h5file \<Rightarrow> error + EventList" where
  "from_h5_file f =
     (let p = h5_parameters f; d = h5_data f in
      err_bind (h5_value p ''exp_time'') (\<lambda>exp_time.
      err_bind (h5_value p ''area'') (\<lambda>area.
      err_bind (h5_opt_value p ''redshift'') (\<lambda>redshift.
      err_bind (h5_opt_value p ''d_a'') (\<lambda>d_a.
      err_bind (h5_slice p ''sky_center'') (\<lambda>sky.
      err_bind (h5_value p ''dtheta'') (\<lambda>dth.
      err_bind (h5_slice p ''pix_center'') (\<lambda>pix.
      err_bind (h5_slice d ''xpix'') (\<lambda>xpix.
      err_bind (h5_slice d ''ypix'') (\<lambda>ypix.
      err_bind (h5_slice d ''eobs'') (\<lambda>eobs.
        EventList_init
          [(''xpix'', xpix), (''ypix'', ypix), (''eobs'', eobs)]
          \<lparr>ExposureTime = exp_time, Area = area, Redshift = redshift,
           AngularDiameterDistance = d_a, sky_center = sky, pix_center = pix,
           dtheta = dth\<rparr>
          None)))))))))))"

text \<open>
  \<^verbatim>\<open>EventList.write_h5_file\<close>, as run by the coordinating process. It returns the file
  and the catalog, which the reads of \<^verbatim>\<open>self["xsky"]\<close> may have extended.
\<close>

definition write_h5_file ::
  "(wcs \<Rightarrow> real list \<Rightarrow> real list \<Rightarrow> real list \<times> real list) \<Rightarrow>
   EventList \<Rightarrow> error + (h5file \<times> EventList)" where
  "write_h5_file pix2world self =
     (let pr = parameters self;
          p0 = dict_set (dict_set [] ''exp_time'' (H5Scalar (ExposureTime pr)))
                 ''area'' (H5Scalar (Area pr));
          p1 = (case Redshift pr of
                  None \<Rightarrow> p0
                | Some z \<Rightarrow> dict_set p0 ''redshift'' (H5Scalar z));
          p2 = (case AngularDiameterDistance pr of
                  None \<Rightarrow> p1
                | Some da \<Rightarrow> dict_set p1 ''d_a'' (H5Scalar da));
          p3 = dict_set (dict_set (dict_set p2 ''sky_center'' (H5Array (sky_center pr)))
                 ''pix_center'' (H5Array (pix_center pr)))
                 ''dtheta'' (H5Scalar (dtheta pr));
          (rx, c1) = getitem pix2world self ''xpix''
      in case rx of Inl err \<Rightarrow> Inl err | Inr xpix \<Rightarrow>
     (let (ry, c2) = getitem pix2world c1 ''ypix''
      in case ry of Inl err \<Rightarrow> Inl err | Inr ypix \<Rightarrow>
     (let (rxs, c3) = getitem pix2world c2 ''xsky''
      in case rxs of Inl err \<Rightarrow> Inl err | Inr xsky \<Rightarrow>
     (let (rys, c4) = getitem pix2world c3 ''ysky''
      in case rys of Inl err \<Rightarrow> Inl err | Inr ysky \<Rightarrow>
     (let (re, c5) = getitem pix2world c4 ''eobs''
      in case re of Inl err \<Rightarrow> Inl err | Inr eobs \<Rightarrow>
        Inr (\<lparr>h5_parameters = p3,
              h5_data = dict_set (dict_set (dict_set (dict_set (dict_set []
                 ''xpix'' (H5Array xpix)) ''ypix'' (H5Array ypix))
                 ''xsky'' (H5Array xsky)) ''ysky'' (H5Array ysky))
                 ''eobs'' (H5Array eobs)\<rparr>, c5))))))"

section \<open>Numpy operations used by the emission models\<close>

text \<open>Fancy indexing \<^verbatim>\<open>a[idxs]\<close> with an index array; an index past the end raises.\<close>

definition index_select :: "'a list \<Rightarrow> nat list \<Rightarrow> error + 'a list" where
  "index_select a idxs =
     (if list_all (\<lambda>i. i < length a) idxs then Inr (map (\<lambda>i. a ! i) idxs)
      else Inl IndexError)"

text \<open>A slice \<^verbatim>\<open>a[i:j]\<close> (clipped to the array, never raising) and the slice assignment
  \<^verbatim>\<open>a[i:j] = v\<close>.\<close>

definition slice :: "'a list \<Rightarrow> nat \<Rightarrow> nat \<Rightarrow> 'a list" where
  "slice a i j = take (j - i) (drop i a)"

definition slice_set :: "'a list \<Rightarrow> nat \<Rightarrow> nat \<Rightarrow> 'a list \<Rightarrow> 'a list" where
  "slice_set a i j v = take i a @ v @ drop j a"

text \<open>\<^verbatim>\<open>np.argsort\<close>: the indices in the order of their values (ties in index order).\<close>

definition argsort :: "real list \<Rightarrow> nat list" where
  "argsort a = sort_key (\<lambda>i. a ! i) [0..<length a]"

text \<open>\<^verbatim>\<open>np.searchsorted(a, v)\<close> on a sorted array: the position of the first entry
  not below \<open>v\<close>. \<^verbatim>\<open>np.digitize(x, bins)\<close> on increasing edges: the number of edges
  that are at most \<open>x\<close>.\<close>

definition searchsorted :: "real list \<Rightarrow> real \<Rightarrow> nat" where
  "searchsorted a v = length (takeWhile (\<lambda>x. x < v) a)"

definition digitize :: "real \<Rightarrow> real list \<Rightarrow> nat" where
  "digitize x bins = length (takeWhile (\<lambda>b. b \<le> x) bins)"

text \<open>\<^verbatim>\<open>np.bincount\<close> of a non-empty array of indices, and \<^verbatim>\<open>np.unique\<close>.\<close>

definition bincount :: "nat list \<Rightarrow> nat list" where
  "bincount xs = map (\<lambda>k. count_list xs k) [0..<Suc (fold max xs 0)]"

definition unique :: "nat list \<Rightarrow> nat list" where
  "unique xs = sort (remdups xs)"

text \<open>Masked reads and writes: \<^verbatim>\<open>a[mask]\<close>, \<^verbatim>\<open>a[mask] = scalar\<close> and the write-back of an
  updated \<^verbatim>\<open>a[mask]\<close>.\<close>

definition mask_get :: "'a list \<Rightarrow> bool list \<Rightarrow> 'a list" where
  "mask_get a msk = map fst (filter snd (zip a msk))"

definition mask_fill :: "'a list \<Rightarrow> bool list \<Rightarrow> 'a \<Rightarrow> 'a list" where
  "mask_fill a msk v = map2 (\<lambda>x m. if m then v else x) a msk"

fun mask_put :: "'a list \<Rightarrow> bool list \<Rightarrow> 'a list \<Rightarrow> 'a list" where
  "mask_put (x # xs) (True # ms) (v # vs) = v # mask_put xs ms vs"
| "mask_put (x # xs) (False # ms) vs = x # mask_put xs ms vs"
| "mask_put xs _ _ = xs"

section \<open>The progress reporter\<close>

text \<open>
  The reporter that setup creates: \<^verbatim>\<open>ParallelProgressBar\<close> (\<open>parallel\<close>), whose
  \<^verbatim>\<open>update\<close> does nothing and whose \<^verbatim>\<open>close\<close> writes a log line, or the terminal
  progress bar, which counts. The log of \<^verbatim>\<open>mylog\<close> is a list of lines.
\<close>

record progress =
  title :: string
  parallel :: bool
  total :: nat
  counted :: nat
  closed :: bool

definition pbar_update :: "nat \<Rightarrow> progress \<Rightarrow> progress" where
  "pbar_update k p = (if parallel p then p else p\<lparr>counted := counted p + k\<rparr>)"

definition pbar_close :: "progress \<Rightarrow> string list \<Rightarrow> progress \<times> string list" where
  "pbar_close p lg =
     (if parallel p
      then (p\<lparr>closed := True\<rparr>, lg @ [''Finishing '' @ [CHR 0x27] @ title p @ [CHR 0x27]])
      else (p\<lparr>closed := True\<rparr>, lg))"

section \<open>The thermal emission model: state and teardown\<close>

text \<open>
  A metallicity or abundance specifier is a float constant or the name of a field
  (\<^verbatim>\<open>isinstance(value, float)\<close> tells them apart).
\<close>

datatype zspec = Const real | Field string

text \<open>
  The attributes of a \<^verbatim>\<open>ThermalSourceModel\<close>. The attributes that are \<^verbatim>\<open>None\<close> until
  setup, and that teardown may reset, are options. The attribute \<^verbatim>\<open>method\<close> is the field
  \<open>method_name\<close>.
\<close>

record thermal =
  temperature_field :: "string option"
  emission_measure_field :: "string option"
  density_field :: "string option"
  Zmet :: zspec
  nei :: bool
  num_var_elem :: nat
  var_elem :: "zspec pydict"
  var_elem_keys :: "string list"
  var_ion_keys :: "string list"
  method_name :: string
  kT_min :: real
  kT_max :: real
  kT_scale :: string
  n_kT :: nat
  kT_bins :: "real list"
  dkT :: "real list"
  spectral_norm :: real
  redshift :: real
  Zconvert :: real
  mconvert :: "real pydict"
  max_density :: "real option"
  tot_num_cells :: nat
  pbar :: "progress option"

text \<open>
  The class body defines \<^verbatim>\<open>cleanup_model\<close> twice: first at lines 285 to 288, then again at
  lines 450 and 451. A method works on the object and the log; \<^verbatim>\<open>self.pbar.close()\<close> on
  an object that has no reporter yet raises.
\<close>

type_synonym thermal_method = "thermal \<Rightarrow> string list \<Rightarrow> error + (thermal \<times> string list)"

definition cleanup_model_first :: thermal_method where
  "cleanup_model_first self lg =
     (let self1 = self\<lparr>emission_measure_field := None\<rparr>;
          self2 = self1\<lparr>temperature_field := None\<rparr>
      in case pbar self2 of
           None \<Rightarrow> Inl AttributeError
         | Some p \<Rightarrow> (let (p', lg') = pbar_close p lg in Inr (self2\<lparr>pbar := Some p'\<rparr>, lg')))"

definition cleanup_model_second :: thermal_method where
  "cleanup_model_second self lg =
     (case pbar self of
        None \<Rightarrow> Inl AttributeError
      | Some p \<Rightarrow> (let (p', lg') = pbar_close p lg in Inr (self\<lparr>pbar := Some p'\<rparr>, lg')))"

text \<open>
  Executing a class body binds each \<^verbatim>\<open>def\<close> in the class namespace in the order of the
  text, a later binding of a name replacing the earlier one. \<open>class_body\<close> lists the
  definitions of \<^verbatim>\<open>cleanup_model\<close> in \<^verbatim>\<open>ThermalSourceModel\<close> in that order, and
  \<open>class_namespace\<close> executes them.
\<close>

definition thermal_class_body :: "(string \<times> thermal_method) list" where
  "thermal_class_body =
     [(''cleanup_model'', cleanup_model_first), (''cleanup_model'', cleanup_model_second)]"

definition class_namespace :: "(string \<times> 'm) list \<Rightarrow> 'm pydict" where
  "class_namespace body = fold (\<lambda>(name, m) ns. dict_set ns name m) body []"

text \<open>Calling \<^verbatim>\<open>model.cleanup_model()\<close> looks the name up in the class namespace.\<close>

definition thermal_cleanup_model :: thermal_method where
  "thermal_cleanup_model self lg =
     (case map_of (class_namespace thermal_class_body) ''cleanup_model'' of
        None \<Rightarrow> Inl AttributeError
      | Some m \<Rightarrow> m self lg)"

subsection \<open>A concrete thermal model\<close>

text \<open>A configured model with two temperature bins, used to evaluate the operations.\<close>

definition example_pbar :: progress where
  "example_pbar = \<lparr>title = ''Processing cells/particles '', parallel = True, total = 2,
     counted = 0, closed = False\<rparr>"

definition example_thermal :: thermal where
  "example_thermal =
     \<lparr>temperature_field = Some ''temperature'',
      emission_measure_field = Some ''emission_measure'',
      density_field = Some ''density'',
      Zmet = Field ''metallicity'', nei = False, num_var_elem = 0, var_elem = [],
      var_elem_keys = [], var_ion_keys = [], method_name = ''invert_cdf'',
      kT_min = 1, kT_max = 3, kT_scale = ''linear'', n_kT = 2,
      kT_bins = [1, 2, 3], dkT = [1, 1], spectral_norm = 1, redshift = 0,
      Zconvert = 1, mconvert = [], max_density = Some 10, tot_num_cells = 2,
      pbar = Some example_pbar\<rparr>"

subsection \<open>Concrete catalogs\<close>

text \<open>Two catalogs with the same parameters and coordinate mapping. The second lists its
  \<^verbatim>\<open>ypix\<close> item before its \<^verbatim>\<open>xpix\<close> item.\<close>

definition ex_params :: parameters where
  "ex_params = \<lparr>ExposureTime = 100, Area = 2, Redshift = Some (1/20),
     AngularDiameterDistance = Some 200, sky_center = [30, 45], pix_center = [2, 2],
     dtheta = 1/3600\<rparr>"

definition ex_wcs :: wcs where
  "ex_wcs = \<lparr>crpix = [2, 2], crval = [30, 45], cdelt = [- (1/3600), 1/3600],
     ctype = [''RA---TAN'', ''DEC--TAN''], cunit = [''deg'', ''deg'']\<rparr>"

definition cat_a :: EventList where
  "cat_a = \<lparr>events = [(''xpix'', [1]), (''ypix'', [2]), (''eobs'', [3])],
     parameters = ex_params, num_events = 1, wcs = ex_wcs\<rparr>"

definition cat_b :: EventList where
  "cat_b = \<lparr>events = [(''ypix'', [20]), (''xpix'', [10]), (''eobs'', [30])],
     parameters = ex_params, num_events = 1, wcs = ex_wcs\<rparr>"

text \<open>The item-by-item concatenation of two item lists, the left key kept.\<close>

definition merge_items :: "(string \<times> real list) list \<Rightarrow> (string \<times> real list) list \<Rightarrow> (string \<times> real list) list" where
  "merge_items e1 e2 = map2 (\<lambda>kv1 kv2. (fst kv1, snd kv1 @ snd kv2)) e1 e2"

text \<open>
  The invariant of the data model for a catalog: the dictionary has no repeated key, it holds
  the three per-photon arrays, and every array it holds has \<open>num_events\<close> entries.
\<close>

definition catalog_ok :: "EventList \<Rightarrow> bool" where
  "catalog_ok c =
     (distinct (dict_keys (events c))
      \<and> list_all (\<lambda>kv. length (snd kv) = num_events c) (events c)
      \<and> ''xpix'' \<in> set (dict_keys (events c))
      \<and> ''ypix'' \<in> set (dict_keys (events c))
      \<and> ''eobs'' \<in> set (dict_keys (events c)))"

text \<open>A catalog of three events.\<close>

definition cat_c :: EventList where
  "cat_c = \<lparr>events = [(''xpix'', [1, 2, 3]), (''ypix'', [1, 2, 3]), (''eobs'', [4, 5, 6])],
     parameters = ex_params, num_events = 3, wcs = ex_wcs\<rparr>"

subsection \<open>A concrete generator\<close>

text \<open>A deterministic stand-in for a generator: a uniform draw is the midpoint of its
  interval, a Poisson draw the integer part of its rate, a normal draw its mean, a
  categorical draw the first category. The state counts the draws.\<close>

definition mid_prng :: "nat prng" where
  "mid_prng = \<lparr>uniform = (\<lambda>low high s. ((low + high) / 2, Suc s)),
                poisson = (\<lambda>lam s. (nat \<lfloor>lam\<rfloor>, Suc s)),
                normal = (\<lambda>loc scale s. (loc, Suc s)),
                choice = (\<lambda>n p s. (0, Suc s))\<rparr>"

text \<open>
  The per-photon invariant: the catalog holds \<^verbatim>\<open>xpix\<close>, \<^verbatim>\<open>ypix\<close> and \<^verbatim>\<open>eobs\<close>, each with
  \<open>num_events\<close> entries.
\<close>

definition per_photon_inv :: "EventList \<Rightarrow> bool" where
  "per_photon_inv c =
     (case dict_get (events c) ''xpix'' of
        Inl err \<Rightarrow> False
      | Inr x \<Rightarrow>
         (case dict_get (events c) ''ypix'' of
            Inl err \<Rightarrow> False
          | Inr y \<Rightarrow>
             (case dict_get (events c) ''eobs'' of
                Inl err \<Rightarrow> False
              | Inr e \<Rightarrow> length x = num_events c \<and> length y = num_events c
                           \<and> length e = num_events c)))"

text \<open>What the constructor returns for a dictionary whose arrays have two, one and no
  entries.\<close>

definition cat_uneven :: EventList where
  "cat_uneven = \<lparr>events = [(''xpix'', [1, 2]), (''ypix'', [1]), (''eobs'', [])],
     parameters = ex_params, num_events = 2, wcs = ex_wcs\<rparr>"

text \<open>A checkpoint file holding one event.\<close>

definition ex_file :: h5file where
  "ex_file = \<lparr>h5_parameters =
                 [(''exp_time'', H5Scalar 100), (''area'', H5Scalar 2),
                  (''sky_center'', H5Array [30, 45]), (''pix_center'', H5Array [2, 2]),
                  (''dtheta'', H5Scalar (1 / 3600))],
               h5_data =
                 [(''xpix'', H5Array [1]), (''ypix'', H5Array [2]), (''eobs'', H5Array [3])]\<rparr>"

section \<open>The power-law and line emission models\<close>

text \<open>
  What a per-chunk operation returns: the number of active cells, their photon counts, the
  selector of the active cells (a boolean mask over the chunk in the power-law and line
  models, an array of cell indices in the thermal model) and the photon energies.
\<close>

datatype selector = Mask "bool list" | Indices "nat list"

type_synonym chunk_result = "nat \<times> nat list \<times> selector \<times> real list"

text \<open>
  The attributes of a \<^verbatim>\<open>PowerLawSourceModel\<close>, with the prefix \<open>pl_\<close>. The energies are
  the values in keV. The fields of one chunk have one length; where two arrays of different
  lengths meet in an element-wise operation, the model raises as numpy does for shapes that
  do not broadcast.
\<close>

record powerlaw =
  pl_e0 :: real
  pl_emin :: real
  pl_emax :: real
  pl_emission_field :: string
  pl_alpha :: zspec
  pl_spectral_norm :: real
  pl_redshift :: real
  pl_scale_factor :: real

text \<open>\<^verbatim>\<open>PowerLawSourceModel.setup_model\<close> (the field type it also resolves is not modelled).\<close>

definition powerlaw_setup_model :: "powerlaw \<Rightarrow> real \<Rightarrow> real \<Rightarrow> powerlaw" where
  "powerlaw_setup_model self z sn =
     self\<lparr>pl_spectral_norm := sn, pl_redshift := z, pl_scale_factor := 1 / (1 + z)\<rparr>"

text \<open>
  \<^verbatim>\<open>PowerLawSourceModel.__call__\<close>, lines 507 to 518: the array \<^verbatim>\<open>alpha\<close>, the array
  \<^verbatim>\<open>norm_fac\<close> and the array \<^verbatim>\<open>norm\<close> that is passed to the Poisson draw. The power
  \<^verbatim>\<open>x**y\<close> of a positive base is \<open>x powr y\<close>.
\<close>

definition powerlaw_norm ::
  "powerlaw \<Rightarrow> real list pydict \<Rightarrow> error + (real list \<times> real list \<times> real list)" where
  "powerlaw_norm self chunk =
     err_bind (dict_get chunk (pl_emission_field self)) (\<lambda>rate.
     (let num_cells = length rate in
      err_bind (case pl_alpha self of
                  Const a \<Rightarrow> Inr (replicate num_cells a)
                | Field f \<Rightarrow> dict_get chunk f) (\<lambda>alpha.
     (let norm_fac0 = map (\<lambda>a. pl_emax self powr (1 - a) - pl_emin self powr (1 - a)) alpha;
          norm_fac = mask_fill norm_fac0 (map (\<lambda>a. a = 1) alpha)
                       (ln (pl_emax self / pl_emin self))
      in if length alpha \<noteq> num_cells then Inl ValueError
         else
          (let norm0 = map2 (*) (map2 (*) norm_fac rate) (map (\<lambda>a. pl_e0 self powr a) alpha);
               ne = map (\<lambda>a. a \<noteq> 1) alpha;
               norm1 = mask_put norm0 ne
                         (map2 (/) (mask_get norm0 ne) (map (\<lambda>a. 1 - a) (mask_get alpha ne)));
               norm2 = map (\<lambda>v. v * (pl_spectral_norm self * pl_scale_factor self)) norm1
           in Inr (alpha, norm_fac, norm2))))))"

text \<open>
  Lines 522 to 536: the loop over the cells. The state is the energies buffer,
  \<^verbatim>\<open>start_e\<close>, \<^verbatim>\<open>end_e\<close> and the generator; a cell is its photon count, its index and its
  \<^verbatim>\<open>norm_fac\<close>.
\<close>

fun powerlaw_loop ::
  "'s prng \<Rightarrow> powerlaw \<Rightarrow> (nat \<times> real \<times> real) list \<Rightarrow>
   real list \<times> nat \<times> nat \<times> 's \<Rightarrow> real list \<times> nat \<times> nat \<times> 's" where
  "powerlaw_loop rng self [] st = st"
| "powerlaw_loop rng self ((n, a, nf) # cells) (energies, start_e, end_e, s) =
     (if 0 < n then
        (let end_e' = start_e + n;
             (u, s1) = draw_n (uniform rng 0 1) n s;
             e = (if a = 1
                  then map (\<lambda>u. pl_emin self * (pl_emax self / pl_emin self) powr u) u
                  else map (\<lambda>u. (pl_emin self powr (1 - a) + u * nf) powr (1 / (1 - a))) u);
             energies' = slice_set energies start_e end_e'
                           (map (\<lambda>v. v * pl_scale_factor self) e)
         in powerlaw_loop rng self cells (energies', end_e', end_e', s1))
      else powerlaw_loop rng self cells (energies, start_e, end_e, s))"

text \<open>Lines 520 to 541: the draw of the counts, the loop and the returned tuple.\<close>

definition powerlaw_sample ::
  "'s prng \<Rightarrow> powerlaw \<Rightarrow> real list \<Rightarrow> real list \<Rightarrow> nat list \<times> 's \<Rightarrow>
   chunk_result \<times> 's" where
  "powerlaw_sample rng self alpha norm_fac drawn =
     (let (number_of_photons, s1) = drawn;
          energies0 = replicate (sum_list number_of_photons) 0;
          (energies, start_e, end_e, s2) =
             powerlaw_loop rng self (zip number_of_photons (zip alpha norm_fac))
               (energies0, 0, 0, s1);
          active_cells = map (\<lambda>n. 0 < n) number_of_photons;
          ncells = mask_sum active_cells
      in ((ncells, mask_get number_of_photons active_cells, Mask active_cells,
           take end_e energies), s2))"

definition powerlaw_call ::
  "'s prng \<Rightarrow> powerlaw \<Rightarrow> real list pydict \<Rightarrow> 's \<Rightarrow> error + (chunk_result \<times> 's)" where
  "powerlaw_call rng self chunk s =
     err_bind (powerlaw_norm self chunk) (\<lambda>(alpha, norm_fac, lam).
       Inr (powerlaw_sample rng self alpha norm_fac (draw_each (poisson rng) lam s)))"

text \<open>
  The attributes of a \<^verbatim>\<open>LineSourceModel\<close>, with the prefix \<open>ln_\<close>. After the constructor
  the broadening is absent, a constant width in keV, or the name of a field;
  \<open>ln_clight\<close> is the speed of light in the unit of that field.
\<close>

datatype sigma_spec = NoSigma | SigmaConst real | SigmaField string

record line_model =
  ln_e0 :: real
  ln_sigma :: sigma_spec
  ln_emission_field :: string
  ln_spectral_norm :: real
  ln_redshift :: real
  ln_scale_factor :: real
  ln_clight :: real

definition line_setup_model :: "line_model \<Rightarrow> real \<Rightarrow> real \<Rightarrow> line_model" where
  "line_setup_model self z sn =
     self\<lparr>ln_spectral_norm := sn, ln_redshift := z, ln_scale_factor := 1 / (1 + z)\<rparr>"

text \<open>Lines 616 to 623: the loop over the cells when the broadening is a field. The state
  is the energies, \<^verbatim>\<open>start_e\<close> and the generator; a cell is its count and its width. The
  width field has an entry for every cell of the chunk; a shorter one is modelled as the
  index error that its first missing entry raises.\<close>

fun line_loop ::
  "'s prng \<Rightarrow> (nat \<times> real) list \<Rightarrow> real list \<times> nat \<times> 's \<Rightarrow> real list \<times> nat \<times> 's" where
  "line_loop rng [] st = st"
| "line_loop rng ((n, sg) # cells) (energies, start_e, s) =
     (if 0 < n then
        (let end_e = start_e + n;
             (dE, s1) = draw_n (normal rng 0 sg) n s;
             energies' = slice_set energies start_e end_e
                           (map2 (+) (slice energies start_e end_e) dE)
         in line_loop rng cells (energies', end_e, s1))
      else line_loop rng cells (energies, start_e, s))"

text \<open>\<^verbatim>\<open>LineSourceModel.__call__\<close>.\<close>

definition line_call ::
  "'s prng \<Rightarrow> line_model \<Rightarrow> real list pydict \<Rightarrow> 's \<Rightarrow> error + (chunk_result \<times> 's)" where
  "line_call rng self chunk s =
     err_bind (dict_get chunk (ln_emission_field self)) (\<lambda>rate.
     (let num_cells = length rate;
          F = map (\<lambda>r. r * ln_spectral_norm self * ln_scale_factor self) rate;
          (number_of_photons, s1) = draw_each (poisson rng) F s;
          energies0 = replicate (sum_list number_of_photons) (ln_e0 self)
      in err_bind
           (case ln_sigma self of
              SigmaConst sg \<Rightarrow>
                (let (dE, s2) = draw_n (normal rng 0 sg) (sum_list number_of_photons) s1
                 in Inr (map2 (+) energies0 dE, s2))
            | SigmaField f \<Rightarrow>
                err_bind (dict_get chunk f) (\<lambda>v.
                  (let sigma = map (\<lambda>v. v * ln_e0 self / ln_clight self) v
                   in if length sigma < num_cells then Inl IndexError
                      else (let (energies, start_e, s2) =
                                  line_loop rng (zip number_of_photons (take num_cells sigma))
                                    (energies0, 0, s1)
                            in Inr (energies, s2))))
            | NoSigma \<Rightarrow> Inr (energies0, s1)) (\<lambda>(energies1, s3).
        (let energies = map (\<lambda>e. e * ln_scale_factor self) energies1;
             active_cells = map (\<lambda>n. 0 < n) number_of_photons;
             ncells = mask_sum active_cells
         in Inr ((ncells, mask_get number_of_photons active_cells, Mask active_cells,
                  energies), s3)))))"

section \<open>Verified properties\<close>

subsection \<open>Teardown of the thermal model\<close>

lemma thermal_namespace_cleanup:
  "map_of (class_namespace thermal_class_body) ''cleanup_model'' = Some cleanup_model_second"
  by (simp add: class_namespace_def thermal_class_body_def)

text \<open>
  Claim C8. The teardown that a call of \<^verbatim>\<open>cleanup_model\<close> on a thermal model runs is the
  second definition: on a model whose progress reporter is \<open>p\<close> it succeeds, the reporter
  is the closed \<open>p\<close> (with the log line of the parallel reporter), and every other
  attribute, among them the cached emission-measure and temperature field names, is what it
  was before the call. The first definition, which would clear the two field names, is not
  the one that runs.
\<close>

theorem thermal_cleanup_only_closes_pbar:
  assumes "pbar self = Some p"
  shows "thermal_cleanup_model self lg =
           Inr (self\<lparr>pbar := Some (fst (pbar_close p lg))\<rparr>, snd (pbar_close p lg))
         \<and> (\<forall>self' lg'. thermal_cleanup_model self lg = Inr (self', lg') \<longrightarrow>
              emission_measure_field self' = emission_measure_field self
            \<and> temperature_field self' = temperature_field self
            \<and> self'\<lparr>pbar := pbar self\<rparr> = self
            \<and> (\<exists>p'. pbar self' = Some p' \<and> closed p'))"
proof -
  have run: "thermal_cleanup_model self lg =
           Inr (self\<lparr>pbar := Some (fst (pbar_close p lg))\<rparr>, snd (pbar_close p lg))"
    using assms
    by (simp add: thermal_cleanup_model_def thermal_namespace_cleanup
        cleanup_model_second_def split_beta)
  have cl: "closed (fst (pbar_close p lg))"
    by (simp add: pbar_close_def)
  show ?thesis
    using run cl by auto
qed

theorem thermal_cleanup_only_closes_pbar_witness:
  "pbar example_thermal = Some example_pbar
   \<and> thermal_cleanup_model example_thermal [] =
       Inr (example_thermal\<lparr>pbar := Some (example_pbar\<lparr>closed := True\<rparr>)\<rparr>,
            [''Finishing '' @ [CHR 0x27] @ ''Processing cells/particles '' @ [CHR 0x27]])
   \<and> emission_measure_field example_thermal = Some ''emission_measure''
   \<and> temperature_field example_thermal = Some ''temperature''"
proof -
  have h: "pbar example_thermal = Some example_pbar"
    by (simp add: example_thermal_def)
  show ?thesis
    using h thermal_cleanup_only_closes_pbar [OF h, of "[]"]
    by (simp add: pbar_close_def example_pbar_def example_thermal_def)
qed

text \<open>
  For contrast: the first definition, had it been the one in force, would have cleared both
  cached field names.
\<close>

lemma cleanup_model_first_clears:
  "cleanup_model_first self lg = Inr (self', lg') \<Longrightarrow>
     emission_measure_field self' = None \<and> temperature_field self' = None"
  by (auto simp: cleanup_model_first_def split_beta split: option.splits)

subsection \<open>Dictionaries and error sequencing\<close>

lemma map_of_dict_set: "map_of (dict_set d k v) = (map_of d)(k \<mapsto> v)"
  by (induction d k v rule: dict_set.induct) (auto simp: fun_eq_iff)

lemma dict_get_dict_set: "dict_get (dict_set d k v) k' = (if k' = k then Inr v else dict_get d k')"
  by (simp add: dict_get_def map_of_dict_set)

lemma keys_dict_set: "set (dict_keys (dict_set d k v)) = insert k (set (dict_keys d))"
  by (induction d k v rule: dict_set.induct) (auto simp: dict_keys_def)

lemma dict_set_fresh: "k \<notin> fst ` set d \<Longrightarrow> dict_set d k v = d @ [(k, v)]"
  by (induction d k v rule: dict_set.induct) auto

lemma err_bind_Inr [simp]: "err_bind (Inr x) f = f x"
  by (simp add: err_bind_def)

lemma err_bind_Inl [simp]: "err_bind (Inl e) f = Inl e"
  by (simp add: err_bind_def)

lemma err_bind_eq_Inr: "err_bind r f = Inr y \<longleftrightarrow> (\<exists>x. r = Inr x \<and> f x = Inr y)"
  by (cases r) auto

lemma cat_a_init: "EventList_init [(''xpix'', [1]), (''ypix'', [2]), (''eobs'', [3])] ex_params None = Inr cat_a"
  by (simp add: EventList_init_def dict_get_def cat_a_def ex_wcs_def ex_params_def)

lemma cat_b_init: "EventList_init [(''ypix'', [20]), (''xpix'', [10]), (''eobs'', [30])] ex_params None = Inr cat_b"
  by (simp add: EventList_init_def dict_get_def cat_b_def ex_wcs_def ex_params_def)

subsection \<open>Merging two catalogs\<close>

lemma merge_items_Cons:
  "merge_items ((k1, v1) # r1) ((k2, v2) # r2) = (k1, v1 @ v2) # merge_items r1 r2"
  by (simp add: merge_items_def)

lemma merge_items_Nil: "merge_items [] e2 = []" "merge_items e1 [] = []"
  by (simp_all add: merge_items_def)

lemma add_loop_aligned:
  "length e1 = length e2 \<Longrightarrow> distinct (map fst e1) \<Longrightarrow>
   (\<forall>k \<in> set (map fst e1). k \<notin> fst ` set acc) \<Longrightarrow>
   add_loop acc e1 e2 = acc @ merge_items e1 e2"
proof (induction e1 arbitrary: e2 acc)
  case Nil
  then show ?case by (simp add: merge_items_Nil)
next
  case (Cons a r1)
  obtain k1 v1 where a: "a = (k1, v1)" by (cases a)
  obtain b r2 where e2: "e2 = b # r2" using Cons.prems(1) by (cases e2) simp_all
  obtain k2 v2 where b: "b = (k2, v2)" by (cases b)
  have fresh: "k1 \<notin> fst ` set acc" using Cons.prems(3) a by simp
  have step: "dict_set acc k1 (v1 @ v2) = acc @ [(k1, v1 @ v2)]"
    by (rule dict_set_fresh [OF fresh])
  have len: "length r1 = length r2" using Cons.prems(1) e2 by simp
  have dist: "distinct (map fst r1)" using Cons.prems(2) by simp
  have k1r1: "k1 \<notin> set (map fst r1)" using Cons.prems(2) a by simp
  have disj: "\<forall>k \<in> set (map fst r1). k \<notin> fst ` set (acc @ [(k1, v1 @ v2)])"
  proof
    fix k assume k: "k \<in> set (map fst r1)"
    have "k \<noteq> k1" using k k1r1 by blast
    moreover have "k \<notin> fst ` set acc" using Cons.prems(3) k by auto
    ultimately show "k \<notin> fst ` set (acc @ [(k1, v1 @ v2)])" by simp
  qed
  have "add_loop (acc @ [(k1, v1 @ v2)]) r1 r2 = (acc @ [(k1, v1 @ v2)]) @ merge_items r1 r2"
    by (rule Cons.IH [OF len dist disj])
  then show ?case by (simp add: a e2 b step merge_items_Cons)
qed

lemma map_of_merge_items:
  "length e1 = length e2 \<Longrightarrow> map fst e1 = map fst e2 \<Longrightarrow>
   map_of e1 k = Some v1 \<Longrightarrow> map_of e2 k = Some v2 \<Longrightarrow>
   map_of (merge_items e1 e2) k = Some (v1 @ v2)"
proof (induction e1 e2 rule: list_induct2)
  case Nil
  then show ?case by simp
next
  case (Cons a r1 b r2)
  obtain k1 w1 where a: "a = (k1, w1)" by (cases a)
  obtain k2 w2 where b: "b = (k2, w2)" by (cases b)
  have kk: "k2 = k1" using Cons.prems(1) a b by simp
  show ?case
  proof (cases "k1 = k")
    case True
    then show ?thesis using Cons.prems a b kk by (simp add: merge_items_Cons)
  next
    case False
    have "map_of (merge_items r1 r2) k = Some (v1 @ v2)"
      using Cons.prems a b kk False by (intro Cons.IH) simp_all
    then show ?thesis using False a b by (simp add: merge_items_Cons)
  qed
qed

lemma EventList_add_aligned:
  assumes ok: "same_wcs (wcs a) (wcs b)" "valid_params (parameters a) (parameters b)"
    and keys: "map fst (events a) = map fst (events b)" "distinct (map fst (events a))"
    and xa: "dict_get (events a) ''xpix'' = Inr xa"
    and xb: "dict_get (events b) ''xpix'' = Inr xb"
  shows "\<exists>r. EventList_add same_wcs valid_params a b = Inr r
           \<and> events r = merge_items (events a) (events b)
           \<and> num_events r = length xa + length xb
           \<and> parameters r = parameters a
           \<and> (\<forall>k v1 v2. dict_get (events a) k = Inr v1 \<longrightarrow> dict_get (events b) k = Inr v2
                \<longrightarrow> dict_get (events r) k = Inr (v1 @ v2))"
proof -
  have len: "length (events a) = length (events b)"
    using keys(1) by (metis length_map)
  have loop: "add_loop [] (events a) (events b) = merge_items (events a) (events b)"
    using add_loop_aligned [OF len keys(2), of "[]"] by simp
  have look: "dict_get (merge_items (events a) (events b)) k = Inr (v1 @ v2)"
    if h1: "dict_get (events a) k = Inr v1" and h2: "dict_get (events b) k = Inr v2" for k v1 v2
  proof -
    have m1: "map_of (events a) k = Some v1"
      using h1 by (cases "map_of (events a) k") (simp_all add: dict_get_def)
    have m2: "map_of (events b) k = Some v2"
      using h2 by (cases "map_of (events b) k") (simp_all add: dict_get_def)
    show ?thesis
      using map_of_merge_items [OF len keys(1) m1 m2] by (simp add: dict_get_def)
  qed
  have x: "dict_get (merge_items (events a) (events b)) ''xpix'' = Inr (xa @ xb)"
    by (rule look [OF xa xb])
  have run: "EventList_add same_wcs valid_params a b =
      EventList_init (merge_items (events a) (events b)) (parameters a) None"
    using ok by (simp add: EventList_add_def loop)
  obtain r where r: "EventList_init (merge_items (events a) (events b)) (parameters a) None = Inr r"
     and ev: "events r = merge_items (events a) (events b)"
     and ne: "num_events r = length (xa @ xb)" and pr: "parameters r = parameters a"
    using x by (simp add: EventList_init_def)
  show ?thesis
    using run r ev ne pr look by auto
qed

text \<open>
  Claim C2, evaluated on the code. \<open>cat_a\<close> holds one event with \<open>xpix = 1\<close>, \<open>ypix = 2\<close>;
  \<open>cat_b\<close> holds one event with \<open>xpix = 10\<close>, \<open>ypix = 20\<close>, its dictionary listing
  \<^verbatim>\<open>ypix\<close> first. Both checks pass and the sum is a catalog of two events, but its
  \<^verbatim>\<open>xpix\<close> array is \<open>[1, 20]\<close> and its \<^verbatim>\<open>ypix\<close> array is \<open>[2, 10]\<close>: the loop pairs the
  items by position and never compares the two keys, so the stored arrays are not the
  concatenations \<open>[1, 10]\<close> and \<open>[2, 20]\<close> of the operands' arrays for those keys.
\<close>

theorem add_pairs_items_by_position:
  "EventList_add (\<lambda>w w'. w = w') (\<lambda>p p'. p = p') cat_a cat_b =
     Inr \<lparr>events = [(''xpix'', [1, 20]), (''ypix'', [2, 10]), (''eobs'', [3, 30])],
          parameters = ex_params, num_events = 2, wcs = ex_wcs\<rparr>
   \<and> dict_get (events cat_a) ''xpix'' = Inr [1]
   \<and> dict_get (events cat_b) ''xpix'' = Inr [10]
   \<and> dict_get (events cat_a) ''ypix'' = Inr [2]
   \<and> dict_get (events cat_b) ''ypix'' = Inr [20]"
  by (simp add: EventList_add_def EventList_init_def dict_get_def cat_a_def cat_b_def
      ex_wcs_def ex_params_def)

subsection \<open>The checkpoint file round trip\<close>

lemma getitem_present:
  "dict_get (events c) key = Inr v \<Longrightarrow> getitem p2w c key = (Inr v, c)"
proof -
  assume h: "dict_get (events c) key = Inr v"
  have "map_of (events c) key \<noteq> None"
    using h by (cases "map_of (events c) key") (simp_all add: dict_get_def)
  then have "key \<in> set (dict_keys (events c))"
    by (simp add: dict_keys_def map_of_eq_None_iff)
  then show ?thesis using h by (simp add: getitem_def)
qed

lemma in_keys_dict_get:
  "key \<in> set (dict_keys d) \<Longrightarrow> \<exists>v. dict_get d key = Inr v"
proof -
  assume "key \<in> set (dict_keys d)"
  then have "map_of d key \<noteq> None"
    by (simp add: dict_keys_def map_of_eq_None_iff)
  then show ?thesis by (cases "map_of d key") (simp_all add: dict_get_def)
qed

lemma getitem_sky:
  assumes x: "dict_get (events c) ''xpix'' = Inr xp" and y: "dict_get (events c) ''ypix'' = Inr yp"
    and key: "key = ''xsky'' \<or> key = ''ysky''"
  shows "\<exists>v c'. getitem p2w c key = (Inr v, c')
           \<and> parameters c' = parameters c \<and> wcs c' = wcs c \<and> num_events c' = num_events c
           \<and> (\<forall>k. k \<noteq> ''xsky'' \<and> k \<noteq> ''ysky'' \<longrightarrow> dict_get (events c') k = dict_get (events c) k)"
proof (cases "key \<in> set (dict_keys (events c))")
  case True
  then obtain v where "dict_get (events c) key = Inr v"
    using in_keys_dict_get by blast
  then have "getitem p2w c key = (Inr v, c)" by (rule getitem_present)
  then show ?thesis by simp
next
  case False
  obtain xs ys where p: "p2w (wcs c) xp yp = (xs, ys)" by (cases "p2w (wcs c) xp yp")
  let ?c' = "c\<lparr>events := dict_set (dict_set (events c) ''xsky'' xs) ''ysky'' ys\<rparr>"
  have run: "getitem p2w c key = (dict_get (events ?c') key, ?c')"
    using False key x y p by (simp add: getitem_def)
  have val: "\<exists>v. dict_get (events ?c') key = Inr v"
    using key by (auto simp: dict_get_dict_set)
  have pres: "\<forall>k. k \<noteq> ''xsky'' \<and> k \<noteq> ''ysky'' \<longrightarrow> dict_get (events ?c') k = dict_get (events c) k"
    by (simp add: dict_get_dict_set)
  show ?thesis using run val pres by auto
qed

lemma h5_value_set: "h5_value (dict_set g k v) k' = (if k' = k then (case v of H5Scalar r \<Rightarrow> Inr r | H5Array a \<Rightarrow> Inl ValueError) else h5_value g k')"
  by (simp add: h5_value_def dict_get_dict_set)

lemma h5_slice_set: "h5_slice (dict_set g k v) k' = (if k' = k then (case v of H5Scalar r \<Rightarrow> Inl ValueError | H5Array a \<Rightarrow> Inr a) else h5_slice g k')"
  by (simp add: h5_slice_def dict_get_dict_set)

lemma h5_opt_value_set: "h5_opt_value (dict_set g k v) k' = (if k' = k then (case v of H5Scalar r \<Rightarrow> Inr (Some r) | H5Array a \<Rightarrow> Inl ValueError) else h5_opt_value g k')"
  by (simp add: h5_opt_value_def h5_value_set keys_dict_set split: h5data.splits)

lemma h5_opt_value_Nil: "h5_opt_value [] k = Inr None"
  by (simp add: h5_opt_value_def dict_keys_def)


lemma write_h5_file_run:
  assumes x: "dict_get (events c) ''xpix'' = Inr x"
    and y: "dict_get (events c) ''ypix'' = Inr y"
    and e: "dict_get (events c) ''eobs'' = Inr e"
  shows "\<exists>xs ys c1 p1 p2. write_h5_file p2w c =
           Inr (\<lparr>h5_parameters =
                   dict_set (dict_set (dict_set p2 ''sky_center'' (H5Array (sky_center (parameters c))))
                     ''pix_center'' (H5Array (pix_center (parameters c))))
                     ''dtheta'' (H5Scalar (dtheta (parameters c))),
                 h5_data = dict_set (dict_set (dict_set (dict_set (dict_set []
                   ''xpix'' (H5Array x)) ''ypix'' (H5Array y))
                   ''xsky'' (H5Array xs)) ''ysky'' (H5Array ys))
                   ''eobs'' (H5Array e)\<rparr>, c1)
         \<and> p1 = (case Redshift (parameters c) of
                   None \<Rightarrow> dict_set (dict_set [] ''exp_time'' (H5Scalar (ExposureTime (parameters c))))
                             ''area'' (H5Scalar (Area (parameters c)))
                 | Some z \<Rightarrow> dict_set (dict_set (dict_set [] ''exp_time'' (H5Scalar (ExposureTime (parameters c))))
                             ''area'' (H5Scalar (Area (parameters c)))) ''redshift'' (H5Scalar z))
         \<and> p2 = (case AngularDiameterDistance (parameters c) of
                   None \<Rightarrow> p1 | Some da \<Rightarrow> dict_set p1 ''d_a'' (H5Scalar da))
         \<and> parameters c1 = parameters c"
proof -
  have g1: "getitem p2w c ''xpix'' = (Inr x, c)" by (rule getitem_present [OF x])
  have g2: "getitem p2w c ''ypix'' = (Inr y, c)" by (rule getitem_present [OF y])
  obtain xs c3 where g3: "getitem p2w c ''xsky'' = (Inr xs, c3)"
    and p3: "parameters c3 = parameters c"
    and k3: "\<forall>k. k \<noteq> ''xsky'' \<and> k \<noteq> ''ysky'' \<longrightarrow> dict_get (events c3) k = dict_get (events c) k"
    using getitem_sky [OF x y, of "''xsky''" p2w] by auto
  have x3: "dict_get (events c3) ''xpix'' = Inr x" using k3 x by simp
  have y3: "dict_get (events c3) ''ypix'' = Inr y" using k3 y by simp
  obtain ys c4 where g4: "getitem p2w c3 ''ysky'' = (Inr ys, c4)"
    and p4: "parameters c4 = parameters c3"
    and k4: "\<forall>k. k \<noteq> ''xsky'' \<and> k \<noteq> ''ysky'' \<longrightarrow> dict_get (events c4) k = dict_get (events c3) k"
    using getitem_sky [OF x3 y3, of "''ysky''" p2w] by auto
  have e4: "dict_get (events c4) ''eobs'' = Inr e" using k4 k3 e by simp
  have g5: "getitem p2w c4 ''eobs'' = (Inr e, c4)" by (rule getitem_present [OF e4])
  show ?thesis
    unfolding write_h5_file_def Let_def
    by (simp add: g1 g2 g3 g4 g5 p3 p4 split: option.splits)
qed

lemma parameters_rebuild:
  "\<lparr>ExposureTime = ExposureTime p, Area = Area p, Redshift = Redshift p,
    AngularDiameterDistance = AngularDiameterDistance p, sky_center = sky_center p,
    pix_center = pix_center p, dtheta = dtheta p\<rparr> = (p :: parameters)"
  by (cases p) simp

text \<open>
  Claim C3. A catalog that holds the three per-photon arrays is written by
  \<^verbatim>\<open>write_h5_file\<close> without error, \<^verbatim>\<open>from_h5_file\<close> reads the file back without error,
  and the catalog read has the same \<^verbatim>\<open>xpix\<close>, \<^verbatim>\<open>ypix\<close> and \<^verbatim>\<open>eobs\<close> arrays and the same
  parameters: exposure time, area, sky centre, pixel centre, angular scale, and the redshift
  and angular-diameter distance exactly when the original has them. On the reals of the
  model the values are equal, which is within any floating-point tolerance.
\<close>

theorem h5_round_trip:
  assumes x: "dict_get (events c) ''xpix'' = Inr x"
    and y: "dict_get (events c) ''ypix'' = Inr y"
    and e: "dict_get (events c) ''eobs'' = Inr e"
  shows "\<exists>f c1 c'. write_h5_file p2w c = Inr (f, c1) \<and> from_h5_file f = Inr c'
           \<and> dict_get (events c') ''xpix'' = Inr x
           \<and> dict_get (events c') ''ypix'' = Inr y
           \<and> dict_get (events c') ''eobs'' = Inr e
           \<and> parameters c' = parameters c"
proof -
  obtain f c1 where w: "write_h5_file p2w c = Inr (f, c1)"
    and fp: "h5_value (h5_parameters f) ''exp_time'' = Inr (ExposureTime (parameters c))"
            "h5_value (h5_parameters f) ''area'' = Inr (Area (parameters c))"
            "h5_opt_value (h5_parameters f) ''redshift'' = Inr (Redshift (parameters c))"
            "h5_opt_value (h5_parameters f) ''d_a'' = Inr (AngularDiameterDistance (parameters c))"
            "h5_slice (h5_parameters f) ''sky_center'' = Inr (sky_center (parameters c))"
            "h5_value (h5_parameters f) ''dtheta'' = Inr (dtheta (parameters c))"
            "h5_slice (h5_parameters f) ''pix_center'' = Inr (pix_center (parameters c))"
    and fd: "h5_slice (h5_data f) ''xpix'' = Inr x"
            "h5_slice (h5_data f) ''ypix'' = Inr y"
            "h5_slice (h5_data f) ''eobs'' = Inr e"
    using write_h5_file_run [OF x y e, of p2w]
    by (auto simp: h5_value_def h5_slice_def h5_opt_value_def dict_get_def dict_keys_def
          split: option.splits)
  have "from_h5_file f = EventList_init [(''xpix'', x), (''ypix'', y), (''eobs'', e)] (parameters c) None"
    by (simp add: from_h5_file_def fp fd parameters_rebuild)
  then show ?thesis
    using w by (simp add: EventList_init_def dict_get_def)
qed

theorem h5_round_trip_witness:
  "dict_get (events cat_a) ''xpix'' = Inr [1]
   \<and> dict_get (events cat_a) ''ypix'' = Inr [2]
   \<and> dict_get (events cat_a) ''eobs'' = Inr [3]
   \<and> (\<exists>f c1 c'. write_h5_file (\<lambda>w xs ys. (xs, ys)) cat_a = Inr (f, c1)
          \<and> from_h5_file f = Inr c'
          \<and> dict_get (events c') ''xpix'' = Inr [1]
          \<and> dict_get (events c') ''ypix'' = Inr [2]
          \<and> dict_get (events c') ''eobs'' = Inr [3]
          \<and> parameters c' = ex_params)"
proof -
  have x: "dict_get (events cat_a) ''xpix'' = Inr [1]"
    by (simp add: cat_a_def dict_get_def)
  have y: "dict_get (events cat_a) ''ypix'' = Inr [2]"
    by (simp add: cat_a_def dict_get_def)
  have e: "dict_get (events cat_a) ''eobs'' = Inr [3]"
    by (simp add: cat_a_def dict_get_def)
  have p: "parameters cat_a = ex_params"
    by (simp add: cat_a_def)
  show ?thesis
    using x y e h5_round_trip [OF x y e, of "\<lambda>w xs ys. (xs, ys)"] by (simp add: p)
qed

subsection \<open>Filtering a catalog by a region\<close>

lemma length_mask_get:
  "length v = length idxs \<Longrightarrow> length (mask_get v idxs) = mask_sum idxs"
  by (induction v idxs rule: list_induct2) (simp_all add: mask_get_def mask_sum_def)

lemma mask_get_all:
  "length v = length idxs \<Longrightarrow> (\<forall>b \<in> set idxs. b) \<Longrightarrow> mask_get v idxs = v"
  by (induction v idxs rule: list_induct2) (auto simp: mask_get_def)

lemma mask_sum_zero: "mask_sum idxs = 0 \<longleftrightarrow> (\<forall>b \<in> set idxs. \<not> b)"
  by (induction idxs) (simp_all add: mask_sum_def)

lemma mask_select_get:
  "length v = length idxs \<Longrightarrow> mask_select v idxs = Inr (mask_get v idxs)"
  by (simp add: mask_select_def mask_get_def)

lemma filter_loop_ok:
  "distinct (map fst evs) \<Longrightarrow> (\<forall>kv \<in> set evs. length (snd kv) = length idxs) \<Longrightarrow>
   (\<forall>k \<in> set (map fst evs). k \<notin> fst ` set acc) \<Longrightarrow>
   filter_loop acc evs idxs = Inr (acc @ map (\<lambda>kv. (fst kv, mask_get (snd kv) idxs)) evs)"
proof (induction evs arbitrary: acc)
  case Nil
  then show ?case by simp
next
  case (Cons a r)
  obtain k v where a: "a = (k, v)" by (cases a)
  have lv: "length v = length idxs" using Cons.prems(2) a by simp
  have fresh: "k \<notin> fst ` set acc" using Cons.prems(3) a by simp
  have step: "dict_set acc k (mask_get v idxs) = acc @ [(k, mask_get v idxs)]"
    by (rule dict_set_fresh [OF fresh])
  have dist: "distinct (map fst r)" using Cons.prems(1) by simp
  have kr: "k \<notin> set (map fst r)" using Cons.prems(1) a by simp
  have lens: "\<forall>kv \<in> set r. length (snd kv) = length idxs" using Cons.prems(2) by simp
  have disj: "\<forall>k' \<in> set (map fst r). k' \<notin> fst ` set (acc @ [(k, mask_get v idxs)])"
  proof
    fix k' assume k': "k' \<in> set (map fst r)"
    have "k' \<noteq> k" using k' kr by blast
    moreover have "k' \<notin> fst ` set acc" using Cons.prems(3) k' by auto
    ultimately show "k' \<notin> fst ` set (acc @ [(k, mask_get v idxs)])" by simp
  qed
  have "filter_loop (acc @ [(k, mask_get v idxs)]) r idxs =
        Inr ((acc @ [(k, mask_get v idxs)]) @ map (\<lambda>kv. (fst kv, mask_get (snd kv) idxs)) r)"
    by (rule Cons.IH [OF dist lens disj])
  then show ?case by (simp add: a mask_select_get [OF lv] step)
qed

lemma map_of_map_snd:
  "map_of (map (\<lambda>kv. (fst kv, f (snd kv))) evs) k = map_option f (map_of evs k)"
  by (induction evs) simp_all

lemma dict_get_map_snd:
  "dict_get evs k = Inr v \<Longrightarrow> dict_get (map (\<lambda>kv. (fst kv, f (snd kv))) evs) k = Inr (f v)"
  by (cases "map_of evs k") (simp_all add: dict_get_def map_of_map_snd)

lemma map_mask_get_all:
  "(\<forall>kv \<in> set evs. length (snd kv) = length idxs) \<Longrightarrow> (\<forall>b \<in> set idxs. b) \<Longrightarrow>
   map (\<lambda>kv. (fst kv, mask_get (snd kv) idxs)) evs = evs"
  by (induction evs) (auto simp: mask_get_all)


lemma catalog_ok_lookup:
  assumes "catalog_ok c" "k \<in> set (dict_keys (events c))"
  shows "\<exists>v. dict_get (events c) k = Inr v \<and> length v = num_events c"
proof -
  obtain v where v: "dict_get (events c) k = Inr v"
    using in_keys_dict_get [OF assms(2)] by blast
  then have "map_of (events c) k = Some v"
    by (cases "map_of (events c) k") (simp_all add: dict_get_def)
  then have "(k, v) \<in> set (events c)" by (rule map_of_SomeD)
  then have "length v = num_events c"
    using assms(1) by (auto simp: catalog_ok_def list_all_iff)
  then show ?thesis using v by blast
qed

lemma filter_events_run:
  assumes ok: "catalog_ok c"
    and x: "dict_get (events c) ''xpix'' = Inr xs"
    and y: "dict_get (events c) ''ypix'' = Inr ys"
  shows "filter_events p2w region c =
     (if mask_sum (map2 (region (wcs c)) xs ys) = 0
      then (Inl (RuntimeError ''No events are inside this region!''), c)
      else (EventList_init
              (map (\<lambda>kv. (fst kv, mask_get (snd kv) (map2 (region (wcs c)) xs ys))) (events c))
              (parameters c) None, c))"
proof -
  have g1: "getitem p2w c ''xpix'' = (Inr xs, c)" by (rule getitem_present [OF x])
  have g2: "getitem p2w c ''ypix'' = (Inr ys, c)" by (rule getitem_present [OF y])
  have kx: "''xpix'' \<in> set (dict_keys (events c))" using ok by (simp add: catalog_ok_def)
  have ky: "''ypix'' \<in> set (dict_keys (events c))" using ok by (simp add: catalog_ok_def)
  have lx: "length xs = num_events c" using catalog_ok_lookup [OF ok kx] x by simp
  have ly: "length ys = num_events c" using catalog_ok_lookup [OF ok ky] y by simp
  let ?idxs = "map2 (region (wcs c)) xs ys"
  have li: "length ?idxs = num_events c" using lx ly by simp
  have lens: "\<forall>kv \<in> set (events c). length (snd kv) = length ?idxs"
    using ok li by (simp add: catalog_ok_def list_all_iff)
  have dist: "distinct (map fst (events c))" using ok by (simp add: catalog_ok_def dict_keys_def)
  have loop: "filter_loop [] (events c) ?idxs =
      Inr (map (\<lambda>kv. (fst kv, mask_get (snd kv) ?idxs)) (events c))"
    using filter_loop_ok [OF dist lens, of "[]"] by simp
  show ?thesis
    unfolding filter_events_def Let_def
    by (simp add: g1 g2 lx ly loop)
qed


lemma ball_map2_nth:
  "length xs = length ys \<Longrightarrow>
   (\<forall>b \<in> set (map2 f xs ys). P b) \<longleftrightarrow> (\<forall>i < length xs. P (f (xs ! i) (ys ! i)))"
  by (simp add: all_set_conv_all_nth)

text \<open>
  Claim C4. For a catalog that satisfies the invariant of the data model, with pixel
  coordinates \<open>xs\<close> and \<open>ys\<close>: \<^verbatim>\<open>filter_events\<close> leaves the catalog as it was; it raises
  the error with the message "No events are inside this region!" exactly when no event lies
  in the region; when some event does, it returns a new catalog with the same keys, each
  array the order-preserving selection \<open>mask_get\<close> of the events inside, \<open>num_events\<close>
  their number and the parameters unchanged; and when every event of a non-empty catalog
  lies in the region, the new catalog has the same per-key arrays and \<open>num_events\<close>.
\<close>

theorem filter_events_region:
  assumes ok: "catalog_ok c"
    and x: "dict_get (events c) ''xpix'' = Inr xs"
    and y: "dict_get (events c) ''ypix'' = Inr ys"
  shows "snd (filter_events p2w region c) = c
    \<and> (fst (filter_events p2w region c) = Inl (RuntimeError ''No events are inside this region!'')
         \<longleftrightarrow> (\<forall>i < num_events c. \<not> region (wcs c) (xs ! i) (ys ! i)))
    \<and> ((\<exists>i < num_events c. region (wcs c) (xs ! i) (ys ! i)) \<longrightarrow>
         (\<exists>r. fst (filter_events p2w region c) = Inr r
            \<and> events r = map (\<lambda>kv. (fst kv, mask_get (snd kv) (map2 (region (wcs c)) xs ys)))
                            (events c)
            \<and> num_events r = mask_sum (map2 (region (wcs c)) xs ys)
            \<and> parameters r = parameters c))
    \<and> (0 < num_events c \<and> (\<forall>i < num_events c. region (wcs c) (xs ! i) (ys ! i)) \<longrightarrow>
         (\<exists>r. fst (filter_events p2w region c) = Inr r
            \<and> events r = events c \<and> num_events r = num_events c))"
proof -
  let ?idxs = "map2 (region (wcs c)) xs ys"
  let ?new = "map (\<lambda>kv. (fst kv, mask_get (snd kv) ?idxs)) (events c)"
  have kx: "''xpix'' \<in> set (dict_keys (events c))" using ok by (simp add: catalog_ok_def)
  have ky: "''ypix'' \<in> set (dict_keys (events c))" using ok by (simp add: catalog_ok_def)
  have lx: "length xs = num_events c" using catalog_ok_lookup [OF ok kx] x by simp
  have ly: "length ys = num_events c" using catalog_ok_lookup [OF ok ky] y by simp
  have lxy: "length xs = length ys" using lx ly by simp
  have li: "length xs = length ?idxs" using lx ly by simp
  have run: "filter_events p2w region c =
     (if mask_sum ?idxs = 0
      then (Inl (RuntimeError ''No events are inside this region!''), c)
      else (EventList_init ?new (parameters c) None, c))"
    by (rule filter_events_run [OF ok x y])
  have zero: "mask_sum ?idxs = 0 \<longleftrightarrow> (\<forall>i < num_events c. \<not> region (wcs c) (xs ! i) (ys ! i))"
    using ball_map2_nth [OF lxy, where f = "region (wcs c)" and P = "\<lambda>b. \<not> b"] lx
    by (simp add: mask_sum_zero)
  have newx: "dict_get ?new ''xpix'' = Inr (mask_get xs ?idxs)"
    by (rule dict_get_map_snd [OF x])
  obtain r where r: "EventList_init ?new (parameters c) None = Inr r"
    and rev: "events r = ?new" and rn: "num_events r = length (mask_get xs ?idxs)"
    and rp: "parameters r = parameters c"
    using newx by (simp add: EventList_init_def)
  have rn': "num_events r = mask_sum ?idxs"
    using rn length_mask_get [OF li] by simp
  have part1: "snd (filter_events p2w region c) = c" by (simp add: run)
  have part2: "fst (filter_events p2w region c) = Inl (RuntimeError ''No events are inside this region!'')
         \<longleftrightarrow> (\<forall>i < num_events c. \<not> region (wcs c) (xs ! i) (ys ! i))"
    using zero r by (simp add: run)
  have part3: "(\<exists>i < num_events c. region (wcs c) (xs ! i) (ys ! i)) \<longrightarrow>
         (\<exists>r. fst (filter_events p2w region c) = Inr r
            \<and> events r = ?new \<and> num_events r = mask_sum ?idxs \<and> parameters r = parameters c)"
    using zero r rev rn' rp by (auto simp: run)
  have part4: "0 < num_events c \<and> (\<forall>i < num_events c. region (wcs c) (xs ! i) (ys ! i)) \<longrightarrow>
         (\<exists>r. fst (filter_events p2w region c) = Inr r
            \<and> events r = events c \<and> num_events r = num_events c)"
  proof
    assume h: "0 < num_events c \<and> (\<forall>i < num_events c. region (wcs c) (xs ! i) (ys ! i))"
    have all: "\<forall>b \<in> set ?idxs. b"
      using ball_map2_nth [OF lxy, where f = "region (wcs c)" and P = "\<lambda>b. b"] lx h by simp
    have nz: "mask_sum ?idxs \<noteq> 0"
      using zero h by auto
    have lens: "\<forall>kv \<in> set (events c). length (snd kv) = length ?idxs"
      using ok li lx by (simp add: catalog_ok_def list_all_iff)
    have same: "?new = events c"
      by (rule map_mask_get_all [OF lens all])
    have "mask_get xs ?idxs = xs" by (rule mask_get_all [OF li all])
    then have "num_events r = num_events c" using rn lx by simp
    then show "\<exists>r. fst (filter_events p2w region c) = Inr r
            \<and> events r = events c \<and> num_events r = num_events c"
      using nz r rev same by (auto simp: run)
  qed
  show ?thesis using part1 part2 part3 part4 by blast
qed


theorem filter_events_region_witness:
  "catalog_ok cat_c
   \<and> dict_get (events cat_c) ''xpix'' = Inr [1, 2, 3]
   \<and> dict_get (events cat_c) ''ypix'' = Inr [1, 2, 3]
   \<and> filter_events (\<lambda>w xs ys. (xs, ys)) (\<lambda>w x y. 2 \<le> x) cat_c =
        (Inr \<lparr>events = [(''xpix'', [2, 3]), (''ypix'', [2, 3]), (''eobs'', [5, 6])],
              parameters = ex_params, num_events = 2, wcs = ex_wcs\<rparr>, cat_c)
   \<and> filter_events (\<lambda>w xs ys. (xs, ys)) (\<lambda>w x y. 10 \<le> x) cat_c =
        (Inl (RuntimeError ''No events are inside this region!''), cat_c)
   \<and> filter_events (\<lambda>w xs ys. (xs, ys)) (\<lambda>w x y. 0 \<le> x) cat_c =
        (Inr cat_c, cat_c)"
proof -
  have ok: "catalog_ok cat_c"
    by (simp add: catalog_ok_def cat_c_def dict_keys_def)
  have x: "dict_get (events cat_c) ''xpix'' = Inr [1, 2, 3]"
    by (simp add: cat_c_def dict_get_def)
  have y: "dict_get (events cat_c) ''ypix'' = Inr [1, 2, 3]"
    by (simp add: cat_c_def dict_get_def)
  have w: "wcs cat_c = ex_wcs" "parameters cat_c = ex_params" "num_events cat_c = 3"
    by (simp_all add: cat_c_def)
  have init: "EventList_init (events cat_c) ex_params None = Inr cat_c"
    by (simp add: EventList_init_def cat_c_def dict_get_def ex_params_def ex_wcs_def)
  note run = filter_events_run [OF ok x y]
  have some: "filter_events (\<lambda>w xs ys. (xs, ys)) (\<lambda>w x y. 2 \<le> x) cat_c =
        (Inr \<lparr>events = [(''xpix'', [2, 3]), (''ypix'', [2, 3]), (''eobs'', [5, 6])],
              parameters = ex_params, num_events = 2, wcs = ex_wcs\<rparr>, cat_c)"
    using filter_events_region [OF ok x y, of "\<lambda>w xs ys. (xs, ys)" "\<lambda>w x y. 2 \<le> x"]
    apply (subst run)
    apply (simp add: w mask_sum_def mask_get_def EventList_init_def dict_get_def
        ex_params_def ex_wcs_def cat_c_def)
    done
  have none: "filter_events (\<lambda>w xs ys. (xs, ys)) (\<lambda>w x y. 10 \<le> x) cat_c =
        (Inl (RuntimeError ''No events are inside this region!''), cat_c)"
    using filter_events_region [OF ok x y, of "\<lambda>w xs ys. (xs, ys)" "\<lambda>w x y. 10 \<le> x"]
    apply (subst run)
    apply (simp add: w mask_sum_def)
    done
  have all: "filter_events (\<lambda>w xs ys. (xs, ys)) (\<lambda>w x y. 0 \<le> x) cat_c = (Inr cat_c, cat_c)"
    using filter_events_region [OF ok x y, of "\<lambda>w xs ys. (xs, ys)" "\<lambda>w x y. 0 \<le> x"]
    apply (subst run)
    apply (simp add: w mask_sum_def mask_get_def EventList_init_def dict_get_def
        ex_params_def ex_wcs_def cat_c_def)
    done
  show ?thesis using ok x y some none all by simp
qed

subsection \<open>Adding background events\<close>

lemma length_draw_n: "length (fst (draw_n f n s)) = n"
  by (induction n arbitrary: s) (simp_all add: split_beta)

lemma draw_n_all: "(\<And>s. P (fst (f s))) \<Longrightarrow> \<forall>x \<in> set (fst (draw_n f n s)). P x"
  by (induction n arbitrary: s) (simp_all add: split_beta)

lemma length_draw_each: "length (fst (draw_each f ps s)) = length ps"
  by (induction ps arbitrary: s) (simp_all add: split_beta)

lemma uint64_of_nat: "n < 2 ^ 64 \<Longrightarrow> uint64 (real n) = n"
proof -
  assume h: "n < 2 ^ 64"
  have "int n mod 2 ^ 64 = int n"
    using h by (simp add: zmod_int [symmetric])
  then show ?thesis by (simp add: uint64_def)
qed

lemma length_interp: "length (interp xs xp fp) = length xs"
  by (simp add: interp_def)

lemma mask_select_all_True: "length e = n \<Longrightarrow> mask_select e (replicate n True) = Inr e"
proof -
  assume len: "length e = n"
  have "map fst (filter snd (zip e (replicate m True))) = take m e" for m
    by (induction e arbitrary: m) (auto simp: take_Cons split: nat.splits)
  then show ?thesis using len by (simp add: mask_select_def)
qed

lemma add_events_no_absorption:
  assumes cnt: "ExposureTime (parameters c) * Area (parameters c) * sum_list spectrum = real n"
    and small: "n < 2 ^ 64"
  shows "\<exists>e s1. add_events rng None c ebins spectrum s = Inr (e, s1) \<and> length e = n"
proof -
  have u: "uint64 (ExposureTime (parameters c) * Area (parameters c) * sum_list spectrum) = n"
    using cnt uint64_of_nat [OF small] by simp
  let ?r = "draw_n (uniform rng 0 1) n s"
  let ?cum = "map (\<lambda>c. c / last (0 # cumsum spectrum)) (0 # cumsum spectrum)"
  let ?e = "interp (sort (fst ?r)) ?cum ebins"
  have le: "length ?e = n" by (simp add: length_interp length_draw_n)
  have sel: "mask_select ?e (replicate (length ?e) True) = Inr ?e"
    by (rule mask_select_all_True) simp
  have "add_events rng None c ebins spectrum s = Inr (?e, snd ?r)"
    unfolding add_events_def Let_def u
    by (simp only: split_beta option.case fst_conv snd_conv sel err_bind_Inr)
  then show ?thesis using le by blast
qed


lemma list_get_in: "i < length xs \<Longrightarrow> list_get xs i = Inr (xs ! i)"
  by (simp add: list_get_def)




subsection \<open>The per-photon invariant\<close>

lemma per_photon_invI:
  "dict_get (events c) ''xpix'' = Inr x \<Longrightarrow> dict_get (events c) ''ypix'' = Inr y \<Longrightarrow>
   dict_get (events c) ''eobs'' = Inr e \<Longrightarrow> length x = num_events c \<Longrightarrow>
   length y = num_events c \<Longrightarrow> length e = num_events c \<Longrightarrow> per_photon_inv c"
  by (simp add: per_photon_inv_def)

lemma per_photon_invD:
  "per_photon_inv c \<Longrightarrow> \<exists>x y e. dict_get (events c) ''xpix'' = Inr x
     \<and> dict_get (events c) ''ypix'' = Inr y \<and> dict_get (events c) ''eobs'' = Inr e
     \<and> length x = num_events c \<and> length y = num_events c \<and> length e = num_events c"
  by (auto simp: per_photon_inv_def split: sum.splits)

lemma init_inv:
  assumes "dict_get ev ''xpix'' = Inr x" "dict_get ev ''ypix'' = Inr y"
    "dict_get ev ''eobs'' = Inr e" "length y = length x" "length e = length x"
  shows "\<exists>c. EventList_init ev p w = Inr c \<and> per_photon_inv c \<and> num_events c = length x
           \<and> events c = ev \<and> parameters c = p"
  using assms by (simp add: EventList_init_def per_photon_inv_def)

lemma init_three_inv:
  assumes "EventList_init [(''xpix'', x), (''ypix'', y), (''eobs'', e)] p w = Inr c"
    "length y = length x" "length e = length x"
  shows "per_photon_inv c"
proof -
  have 1: "dict_get [(''xpix'', x), (''ypix'', y), (''eobs'', e)] ''xpix'' = Inr x"
    by (simp add: dict_get_def)
  have 2: "dict_get [(''xpix'', x), (''ypix'', y), (''eobs'', e)] ''ypix'' = Inr y"
    by (simp add: dict_get_def)
  have 3: "dict_get [(''xpix'', x), (''ypix'', y), (''eobs'', e)] ''eobs'' = Inr e"
    by (simp add: dict_get_def)
  show ?thesis
    using init_inv [OF 1 2 3 assms(2) assms(3), of p w] assms(1) by auto
qed

lemma add_inv:
  assumes a: "per_photon_inv a" and b: "per_photon_inv b"
    and ok: "same_wcs (wcs a) (wcs b)" "valid_params (parameters a) (parameters b)"
    and keys: "map fst (events a) = map fst (events b)" "distinct (map fst (events a))"
  shows "\<exists>r. EventList_add same_wcs valid_params a b = Inr r \<and> per_photon_inv r
           \<and> num_events r = num_events a + num_events b"
proof -
  obtain xa ya ea where A: "dict_get (events a) ''xpix'' = Inr xa"
      "dict_get (events a) ''ypix'' = Inr ya" "dict_get (events a) ''eobs'' = Inr ea"
      "length xa = num_events a" "length ya = num_events a" "length ea = num_events a"
    using per_photon_invD [OF a] by blast
  obtain xb yb eb where B: "dict_get (events b) ''xpix'' = Inr xb"
      "dict_get (events b) ''ypix'' = Inr yb" "dict_get (events b) ''eobs'' = Inr eb"
      "length xb = num_events b" "length yb = num_events b" "length eb = num_events b"
    using per_photon_invD [OF b] by blast
  obtain r where r: "EventList_add same_wcs valid_params a b = Inr r"
    and n: "num_events r = length xa + length xb"
    and look: "\<forall>k v1 v2. dict_get (events a) k = Inr v1 \<longrightarrow> dict_get (events b) k = Inr v2
                \<longrightarrow> dict_get (events r) k = Inr (v1 @ v2)"
    using EventList_add_aligned [where same_wcs = same_wcs and valid_params = valid_params
        and a = a and b = b, OF ok keys A(1) B(1)] by blast
  have rx: "dict_get (events r) ''xpix'' = Inr (xa @ xb)" using look A(1) B(1) by blast
  have ry: "dict_get (events r) ''ypix'' = Inr (ya @ yb)" using look A(2) B(2) by blast
  have re: "dict_get (events r) ''eobs'' = Inr (ea @ eb)" using look A(3) B(3) by blast
  have "per_photon_inv r"
    by (rule per_photon_invI [OF rx ry re]) (simp_all add: n A B)
  then show ?thesis using r n A(4) B(4) by auto
qed


lemma add_background_inv:
  assumes inv: "per_photon_inv c"
    and run: "add_background rng nprandom absorb c energy_bins spectrum s g = Inr (r, s', g')"
  shows "per_photon_inv r"
proof -
  obtain xo yo eo where O: "dict_get (events c) ''xpix'' = Inr xo"
      "dict_get (events c) ''ypix'' = Inr yo" "dict_get (events c) ''eobs'' = Inr eo"
      "length xo = num_events c" "length yo = num_events c" "length eo = num_events c"
    using per_photon_invD [OF inv] by blast
  obtain en s1 where ae: "add_events rng absorb c energy_bins spectrum s = Inr (en, s1)"
    using run by (cases "add_events rng absorb c energy_bins spectrum s")
      (auto simp: add_background_def)
  obtain pc0 where g0: "list_get (pix_center (parameters c)) 0 = Inr pc0"
    using run ae by (cases "list_get (pix_center (parameters c)) 0")
      (auto simp: add_background_def Let_def)
  obtain pc1 where g1: "list_get (pix_center (parameters c)) (Suc 0) = Inr pc1"
    using run ae g0 by (cases "list_get (pix_center (parameters c)) (Suc 0)")
      (auto simp: add_background_def Let_def split_beta)
  let ?dx = "draw_n (uniform nprandom (1 / 2) (2 * pc0 - 1 / 2)) (length en) g"
  let ?dy = "draw_n (uniform nprandom (1 / 2) (2 * pc1 - 1 / 2)) (length en) (snd ?dx)"
  have init: "EventList_init [(''xpix'', fst ?dx @ xo), (''ypix'', fst ?dy @ yo), (''eobs'', en @ eo)]
                 (parameters c) None = Inr r"
    using run ae g0 g1 O(1,2,3)
    by (auto simp: add_background_def Let_def split_beta err_bind_eq_Inr)
  show ?thesis
    by (rule init_three_inv [OF init]) (simp_all add: length_draw_n O)
qed


lemma point_loop_inv:
  "point_loop rng absorb w2p c eb ps sps (x, y, e) s = Inr ((x', y', e'), s') \<Longrightarrow>
   length (concat y) = length (concat x) \<Longrightarrow> length (concat e) = length (concat x) \<Longrightarrow>
   length (concat y') = length (concat x') \<and> length (concat e') = length (concat x')"
proof (induction ps arbitrary: sps x y e s)
  case Nil
  then show ?case by simp
next
  case (Cons pos ps)
  show ?case
  proof (cases sps)
    case Nil
    then show ?thesis using Cons.prems by simp
  next
    case (Cons spectrum sps')
    obtain eobs s1 where ae: "add_events rng absorb c eb spectrum s = Inr (eobs, s1)"
      using Cons.prems(1) Cons by (cases "add_events rng absorb c eb spectrum s") auto
    obtain xp yp where w: "w2p (wcs c) (fst pos) (snd pos) = (xp, yp)"
      by (cases "w2p (wcs c) (fst pos) (snd pos)")
    let ?n = "length eobs"
    have step: "point_loop rng absorb w2p c eb ps sps'
        (x @ [replicate ?n xp], y @ [replicate ?n yp], e @ [eobs]) s1 = Inr ((x', y', e'), s')"
      using Cons.prems(1) Cons ae w by (simp add: Let_def)
    show ?thesis
      by (rule Cons.IH [OF step]) (simp_all add: Cons.prems)
  qed
qed

lemma add_point_sources_inv:
  assumes inv: "per_photon_inv c"
    and run: "add_point_sources rng absorb w2p c positions energy_bins spectra s = Inr (r, s')"
  shows "per_photon_inv r"
proof -
  obtain xo yo eo where O: "dict_get (events c) ''xpix'' = Inr xo"
      "dict_get (events c) ''ypix'' = Inr yo" "dict_get (events c) ''eobs'' = Inr eo"
      "length xo = num_events c" "length yo = num_events c" "length eo = num_events c"
    using per_photon_invD [OF inv] by blast
  obtain x y e s1 where loop: "point_loop rng absorb w2p c energy_bins positions spectra
        ([xo], [yo], [eo]) s = Inr ((x, y, e), s1)"
    and init: "EventList_init [(''xpix'', concat x), (''ypix'', concat y), (''eobs'', concat e)]
                 (parameters c) None = Inr r"
    using run O(1,2,3)
    by (auto simp: add_point_sources_def err_bind_eq_Inr)
  have "length (concat y) = length (concat x) \<and> length (concat e) = length (concat x)"
    by (rule point_loop_inv [OF loop]) (simp_all add: O)
  then show ?thesis
    using init_three_inv [OF init] by simp
qed

lemma filter_events_inv:
  assumes ok: "catalog_ok c"
    and run: "fst (filter_events p2w region c) = Inr r"
  shows "per_photon_inv r"
proof -
  have kx: "''xpix'' \<in> set (dict_keys (events c))" using ok by (simp add: catalog_ok_def)
  have ky: "''ypix'' \<in> set (dict_keys (events c))" using ok by (simp add: catalog_ok_def)
  have ke: "''eobs'' \<in> set (dict_keys (events c))" using ok by (simp add: catalog_ok_def)
  obtain xs where x: "dict_get (events c) ''xpix'' = Inr xs" and lx: "length xs = num_events c"
    using catalog_ok_lookup [OF ok kx] by blast
  obtain ys where y: "dict_get (events c) ''ypix'' = Inr ys" and ly: "length ys = num_events c"
    using catalog_ok_lookup [OF ok ky] by blast
  obtain es where e: "dict_get (events c) ''eobs'' = Inr es" and le: "length es = num_events c"
    using catalog_ok_lookup [OF ok ke] by blast
  let ?idxs = "map2 (region (wcs c)) xs ys"
  let ?new = "map (\<lambda>kv. (fst kv, mask_get (snd kv) ?idxs)) (events c)"
  have li: "length ?idxs = num_events c" using lx ly by simp
  have init: "EventList_init ?new (parameters c) None = Inr r"
    using run filter_events_run [OF ok x y, of p2w region]
    by (simp split: if_splits)
  have nx: "dict_get ?new ''xpix'' = Inr (mask_get xs ?idxs)" by (rule dict_get_map_snd [OF x])
  have ny: "dict_get ?new ''ypix'' = Inr (mask_get ys ?idxs)" by (rule dict_get_map_snd [OF y])
  have ne: "dict_get ?new ''eobs'' = Inr (mask_get es ?idxs)" by (rule dict_get_map_snd [OF e])
  have l1: "length (mask_get ys ?idxs) = length (mask_get xs ?idxs)"
    using length_mask_get [of ys ?idxs] length_mask_get [of xs ?idxs] li lx ly by simp
  have l2: "length (mask_get es ?idxs) = length (mask_get xs ?idxs)"
    using length_mask_get [of es ?idxs] length_mask_get [of xs ?idxs] li lx le by simp
  show ?thesis
    using init_inv [OF nx ny ne l1 l2, of "parameters c" None] init by auto
qed

lemma from_h5_file_inv:
  assumes d: "h5_slice (h5_data f) ''xpix'' = Inr x" "h5_slice (h5_data f) ''ypix'' = Inr y"
      "h5_slice (h5_data f) ''eobs'' = Inr e"
    and len: "length y = length x" "length e = length x"
    and run: "from_h5_file f = Inr c"
  shows "per_photon_inv c"
proof -
  obtain p where "EventList_init [(''xpix'', x), (''ypix'', y), (''eobs'', e)] p None = Inr c"
    using run d by (auto simp: from_h5_file_def Let_def err_bind_eq_Inr)
  then show ?thesis using len by (rule init_three_inv)
qed

lemma uint64_2: "uint64 2 = 2"
  by (simp add: uint64_def)





end
